theory Spec2Isabelle
  imports Complex_Main "HOL-Library.Sublist" "HOL-Library.Multiset"
begin

section \<open>Python values\<close>

text \<open>
  Conventions of the embedding.
  \<^item> A Python \<^verbatim>\<open>str\<close> is a \<^typ>\<open>string\<close> of ASCII characters; \<^verbatim>\<open>lower\<close>, \<^verbatim>\<open>upper\<close>,
    \<^verbatim>\<open>\w\<close> and \<^verbatim>\<open>\s\<close> are modelled on ASCII.
  \<^item> A Python \<^verbatim>\<open>float\<close> is a \<^typ>\<open>real\<close>: rounding, infinities and NaN are not modelled.
  \<^item> A \<^verbatim>\<open>datetime\<close> is an integer number of microseconds on a common time line.
  \<^item> A \<^verbatim>\<open>Dict[str, float]\<close> of features is a map \<^typ>\<open>string \<rightharpoonup> real\<close>.
  \<^item> The substring test \<^verbatim>\<open>a in b\<close> on strings is \<^term>\<open>sublist a b\<close>.
\<close>

type_synonym datetime = int
type_synonym features = "string \<rightharpoonup> real"
type_synonym vec = "nat \<Rightarrow> real"

datatype error = KeyError string | IndexError

definition lower_char :: "char \<Rightarrow> char" where
  "lower_char c =
     (case map_of (zip ''ABCDEFGHIJKLMNOPQRSTUVWXYZ'' ''abcdefghijklmnopqrstuvwxyz'') c of
        Some l \<Rightarrow> l | None \<Rightarrow> c)"

definition upper_char :: "char \<Rightarrow> char" where
  "upper_char c =
     (case map_of (zip ''abcdefghijklmnopqrstuvwxyz'' ''ABCDEFGHIJKLMNOPQRSTUVWXYZ'') c of
        Some u \<Rightarrow> u | None \<Rightarrow> c)"

definition lower :: "string \<Rightarrow> string" where
  "lower s = map lower_char s"

definition upper :: "string \<Rightarrow> string" where
  "upper s = map upper_char s"

definition is_word_char :: "char \<Rightarrow> bool" where
  "is_word_char c \<longleftrightarrow>
     c \<in> set ''abcdefghijklmnopqrstuvwxyzABCDEFGHIJKLMNOPQRSTUVWXYZ0123456789_''"

text \<open>The characters \<^verbatim>\<open>\s\<close> and \<^verbatim>\<open>str.strip\<close> treat as whitespace: codes 9 to 13, 28 to 31
  and the space.\<close>

definition is_space :: "char \<Rightarrow> bool" where
  "is_space c \<longleftrightarrow> (let n = (of_char c :: nat) in (9 \<le> n \<and> n \<le> 13) \<or> (28 \<le> n \<and> n \<le> 32))"

text \<open>\<^verbatim>\<open>re.sub(r'\s+', ' ', text)\<close>: the flag says that the previous character was whitespace.\<close>

fun collapse_spaces :: "bool \<Rightarrow> string \<Rightarrow> string" where
  "collapse_spaces in_run [] = []"
| "collapse_spaces in_run (c # cs) =
     (if is_space c
      then (if in_run then collapse_spaces True cs else CHR '' '' # collapse_spaces True cs)
      else c # collapse_spaces False cs)"

definition strip :: "string \<Rightarrow> string" where
  "strip s = rev (dropWhile is_space (rev (dropWhile is_space s)))"

text \<open>\<^verbatim>\<open>sep.join(parts)\<close>\<close>

fun join :: "string \<Rightarrow> string list \<Rightarrow> string" where
  "join sep [] = []"
| "join sep [p] = p"
| "join sep (p # q # ps) = p @ sep @ join sep (q # ps)"

text \<open>\<^verbatim>\<open>int(x)\<close> on a float truncates towards zero; \<^verbatim>\<open>str(n)\<close> on an int is its decimal
  numeral.\<close>

definition py_int :: "real \<Rightarrow> int" where
  "py_int x = (if 0 \<le> x then \<lfloor>x\<rfloor> else \<lceil>x\<rceil>)"

definition digit_char :: "nat \<Rightarrow> char" where
  "digit_char d = ''0123456789'' ! d"

fun str_nat :: "nat \<Rightarrow> string" where
  "str_nat n = (if n < 10 then [digit_char n] else str_nat (n div 10) @ [digit_char (n mod 10)])"

declare str_nat.simps [simp del]

definition str_int :: "int \<Rightarrow> string" where
  "str_int i = (if i < 0 then CHR ''-'' # str_nat (nat (- i)) else str_nat (nat i))"

text \<open>\<^verbatim>\<open>xs[:k]\<close> for an integer \<open>k\<close>: a negative \<open>k\<close> counts from the end.\<close>

definition slice_to :: "'a list \<Rightarrow> int \<Rightarrow> 'a list" where
  "slice_to xs k = (if 0 \<le> k then take (nat k) xs else take (length xs - nat (- k)) xs)"

section \<open>models.py\<close>

text \<open>Fields that several dataclasses share carry the class as a prefix.\<close>

record Education =
  level_of_education :: string
  department :: string
  speciality :: string
  university :: string
  edu_country :: string
  edu_start_date :: datetime
  edu_end_date :: "datetime option"

record WorkExperience =
  company_name :: string
  position :: string
  exp_start_date :: datetime
  exp_end_date :: "datetime option"
  is_present :: bool
  exp_description :: string
  exp_country :: string
  type_of_work :: string

record LanguageProficiency =
  language :: string
  level :: string

record Skill =
  skill_id :: string
  skill_name :: string
  importance :: "real option"

record CriticalRequirement =
  cr_id :: string
  requirements :: string
  Degree :: real

record Candidate =
  candidate_id :: string
  first_name :: string
  second_name :: string
  phone_number :: string
  date_of_birth :: "datetime option"
  gender :: "string option"
  cand_country :: string
  cand_city :: string
  ready_to_relocate :: bool
  education :: "Education list"
  work_experience :: "WorkExperience list"
  cand_languages :: "LanguageProficiency list"
  cand_skills :: "Skill list"

text \<open>
  An entry of \<^verbatim>\<open>JobPosition.languages\<close> is a dict
  \<^verbatim>\<open>{"languages": ..., "Level_of_cretical": number}\<close>; either key may be absent. The value
  under \<^verbatim>\<open>"languages"\<close> is a \<^verbatim>\<open>LanguageProficiency\<close> (as models.py documents and the
  examples build), a nested dict with an optional \<^verbatim>\<open>"language"\<close> string, or a plain string.
\<close>

datatype languages_value =
    LangProficiency LanguageProficiency
  | LangDict "string option"
  | LangStr string

record lang_req =
  languages :: "languages_value option"
  Level_of_cretical :: "real option"

record JobPosition =
  organizationId :: string
  status :: string
  title :: string
  description :: string
  job_city :: string
  job_country :: string
  job_start_date :: datetime
  job_end_date :: datetime
  presence_type :: string
  job_languages :: "lang_req list"
  level_of_experience :: string
  offer_description :: string
  number_of_volunteers :: int
  type_of_presence :: string
  education_level :: "string option"
  education_speciality :: "string option"
  experience :: "string option"
  education_department :: "string option"
  job_notes :: "string option"
  qualifications :: "string option"
  responsibilities :: "string option"
  job_skills :: "Skill list"
  critical_requirements :: "CriticalRequirement list"

section \<open>External collaborators\<close>

text \<open>
  What the pipeline calls and this repository does not define: the clock
  (\<^verbatim>\<open>datetime.now()\<close>), the sentence embedder (one vector of \<open>embedding_dim\<close> components per
  text), geopy's geodesic distance in kilometres, and Python's \<^verbatim>\<open>str()\<close> of a
  \<^verbatim>\<open>LanguageProficiency\<close> dataclass.
\<close>

record extern =
  now :: datetime
  embed :: "string \<Rightarrow> vec"
  embedding_dim :: nat
  geodesic_km :: "real \<times> real \<Rightarrow> real \<times> real \<Rightarrow> real"
  str_proficiency :: "LanguageProficiency \<Rightarrow> string"

section \<open>feature\_extraction.py\<close>

subsection \<open>TextNormalizer and TaxonomyMapper\<close>

definition normalize_text :: "string \<Rightarrow> string" where
  "normalize_text text =
     (if text = [] then []
      else strip (collapse_spaces False
             (filter (\<lambda>c. is_word_char c \<or> is_space c) (lower text))))"

definition title_taxonomy :: "(string \<times> string) list" where
  "title_taxonomy =
     [(''software engineer'', ''SE001''),
      (''data scientist'', ''DS001''),
      (''data analyst'', ''DA001''),
      (''machine learning engineer'', ''MLE001''),
      (''product manager'', ''PM001''),
      (''project manager'', ''PJM001'')]"

definition skill_taxonomy :: "(string \<times> string) list" where
  "skill_taxonomy =
     [(''python'', ''SK001''),
      (''java'', ''SK002''),
      (''javascript'', ''SK003''),
      (''sql'', ''SK004''),
      (''machine learning'', ''SK005''),
      (''deep learning'', ''SK006'')]"

definition map_title :: "string \<Rightarrow> string" where
  "map_title t =
     (let normalized = normalize_text t
      in case map_of title_taxonomy normalized of Some v \<Rightarrow> v | None \<Rightarrow> normalized)"

definition map_skill :: "string \<Rightarrow> string" where
  "map_skill s =
     (let normalized = normalize_text s
      in case map_of skill_taxonomy normalized of Some v \<Rightarrow> v | None \<Rightarrow> normalized)"

subsection \<open>EmbeddingExtractor and cosine similarity\<close>

definition encode :: "extern \<Rightarrow> string list \<Rightarrow> vec list" where
  "encode ext texts = (if texts = [] then [\<lambda>i. 0] else map (embed ext) texts)"

definition encode_single :: "extern \<Rightarrow> string \<Rightarrow> vec" where
  "encode_single ext text = hd (encode ext [text])"

text \<open>scikit-learn's \<^verbatim>\<open>cosine_similarity\<close>: both rows are scaled to unit length (a row of
  norm zero is left as it is), then multiplied.\<close>

definition dot :: "nat \<Rightarrow> vec \<Rightarrow> vec \<Rightarrow> real" where
  "dot d x y = (\<Sum>i<d. x i * y i)"

definition unit_row :: "nat \<Rightarrow> vec \<Rightarrow> vec" where
  "unit_row d x = (let n = sqrt (dot d x x) in if n = 0 then x else (\<lambda>i. x i / n))"

definition cosine_similarity :: "nat \<Rightarrow> vec \<Rightarrow> vec \<Rightarrow> real" where
  "cosine_similarity d x y = dot d (unit_row d x) (unit_row d y)"

text \<open>\<^verbatim>\<open>np.mean(rows, axis=0)\<close>\<close>

definition mean_rows :: "vec list \<Rightarrow> vec" where
  "mean_rows rows = (\<lambda>i. (\<Sum>r\<leftarrow>rows. r i) / real (length rows))"

subsection \<open>DateProcessor\<close>

definition microseconds_per_day :: int where
  "microseconds_per_day = 86400000000"

definition compute_duration_years :: "extern \<Rightarrow> datetime \<Rightarrow> datetime option \<Rightarrow> real" where
  "compute_duration_years ext start_date end_date =
     (let end_date = (case end_date of None \<Rightarrow> now ext | Some e \<Rightarrow> e);
          days = (end_date - start_date) div microseconds_per_day
      in real_of_int days / 365.25)"

subsection \<open>LocationProcessor\<close>

definition CITY_COORDINATES :: "(string \<times> real \<times> real) list" where
  "CITY_COORDINATES =
     [(''new york'', (40.7128, -74.0060)),
      (''london'', (51.5074, -0.1278)),
      (''paris'', (48.8566, 2.3522)),
      (''tokyo'', (35.6762, 139.6503)),
      (''san francisco'', (37.7749, -122.4194))]"

definition get_coordinates :: "string \<Rightarrow> string \<Rightarrow> real \<times> real" where
  "get_coordinates city country =
     (case map_of CITY_COORDINATES (lower city) of Some coords \<Rightarrow> coords | None \<Rightarrow> (0, 0))"

definition compute_geodesic_distance ::
  "extern \<Rightarrow> string \<Rightarrow> string \<Rightarrow> string \<Rightarrow> string \<Rightarrow> real" where
  "compute_geodesic_distance ext city1 country1 city2 country2 =
     geodesic_km ext (get_coordinates city1 country1) (get_coordinates city2 country2)"

subsection \<open>LanguageProcessor\<close>

definition LEVEL_ORDINAL :: "(string \<times> int) list" where
  "LEVEL_ORDINAL =
     [(''A1'', 1), (''A2'', 2), (''B1'', 3), (''B2'', 4),
      (''C1'', 5), (''C2'', 6), (''Native'', 7)]"

definition level_to_ordinal :: "string \<Rightarrow> int" where
  "level_to_ordinal lvl =
     (case map_of LEVEL_ORDINAL (upper lvl) of Some v \<Rightarrow> v | None \<Rightarrow> 0)"

fun candidate_level_in :: "LanguageProficiency list \<Rightarrow> string \<Rightarrow> int" where
  "candidate_level_in [] lang = 0"
| "candidate_level_in (lang_prof # rest) lang =
     (if lower (language lang_prof) = lower lang then level_to_ordinal (level lang_prof)
      else candidate_level_in rest lang)"

definition get_candidate_language_level :: "Candidate \<Rightarrow> string \<Rightarrow> int" where
  "get_candidate_language_level candidate lang = candidate_level_in (cand_languages candidate) lang"

subsection \<open>FeatureExtractor\<close>

definition degree_levels :: "(string \<times> int) list" where
  "degree_levels = [(''high school'', 1), (''bachelor'', 2), (''master'', 3), (''phd'', 4)]"

text \<open>Python's truth value of an optional string: neither \<^verbatim>\<open>None\<close> nor empty.\<close>

definition truthy :: "string option \<Rightarrow> bool" where
  "truthy s = (case s of None \<Rightarrow> False | Some t \<Rightarrow> t \<noteq> [])"

definition extract_education_features :: "Candidate \<Rightarrow> JobPosition \<Rightarrow> features" where
  "extract_education_features candidate job =
     (let candidate_highest =
            fold (\<lambda>edu highest.
                    fold (\<lambda>(key, val) h.
                            if sublist key (lower (level_of_education edu)) then max h val else h)
                         degree_levels highest)
                 (education candidate) (0::int);
          candidate_fields = set (map (\<lambda>edu. normalize_text (department edu)) (education candidate));
          candidate_specialities =
            set (map (\<lambda>edu. normalize_text (speciality edu)) (education candidate));
          required_level =
            (if truthy (education_level job)
             then (case find (\<lambda>(key, val). sublist key (lower (the (education_level job))))
                          degree_levels of
                     Some (key, val) \<Rightarrow> val
                   | None \<Rightarrow> 0)
             else 0);
          required_fields =
            (if truthy (education_department job)
             then {normalize_text (the (education_department job))} else {})
            \<union> (if truthy (education_speciality job)
               then {normalize_text (the (education_speciality job))} else {});
          field_match_score =
            (if candidate_fields \<noteq> {} \<or> required_fields \<noteq> {}
             then (let intersection = candidate_fields \<inter> required_fields;
                       union = candidate_fields \<union> required_fields
                   in if union \<noteq> {} then real (card intersection) / real (card union) else 0)
             else 0)
      in [''candidate_highest_degree_level'' \<mapsto> real_of_int candidate_highest,
          ''required_min_degree_level'' \<mapsto> real_of_int required_level,
          ''degree_level_gap'' \<mapsto> real_of_int (candidate_highest - required_level),
          ''has_required_degree_level'' \<mapsto> (if candidate_highest \<ge> required_level then 1 else 0),
          ''field_match_score'' \<mapsto> field_match_score])"

definition parse_experience_level :: "string \<Rightarrow> real" where
  "parse_experience_level level_str =
     (if level_str = [] then 0
      else let level_lower = lower level_str
           in if sublist ''entry'' level_lower \<or> sublist ''junior'' level_lower then 0
              else if sublist ''mid'' level_lower \<or> sublist ''2-5'' level_lower then 3
              else if sublist ''senior'' level_lower \<or> sublist ''5+'' level_lower then 5
              else 2)"

text \<open>\<^verbatim>\<open>max(xs, key=...)\<close> on a non-empty list: the first element with the greatest key.\<close>

fun max_by :: "('a \<Rightarrow> int) \<Rightarrow> 'a \<Rightarrow> 'a list \<Rightarrow> 'a" where
  "max_by key best [] = best"
| "max_by key best (x # xs) = max_by key (if key x > key best then x else best) xs"

definition extract_experience_features :: "extern \<Rightarrow> Candidate \<Rightarrow> JobPosition \<Rightarrow> features" where
  "extract_experience_features ext candidate job =
     (let total_years =
            (\<Sum>exp \<leftarrow> work_experience candidate.
               compute_duration_years ext (exp_start_date exp)
                 (Some (case exp_end_date exp of Some e \<Rightarrow> e | None \<Rightarrow> now ext)));
          job_text = title job @ '' '' @ description job;
          exp_texts = map (\<lambda>exp. position exp @ '' '' @ exp_description exp) (work_experience candidate);
          title_similarity_score =
            (if exp_texts \<noteq> []
             then (let job_emb = encode_single ext job_text;
                       exp_embs = encode ext exp_texts;
                       similarities = map (cosine_similarity (embedding_dim ext) job_emb) exp_embs
                   in Max (set similarities))
             else 0);
          required_titles = {map_title (title job)};
          years_in_required =
            (\<Sum>exp \<leftarrow> filter (\<lambda>exp. map_title (position exp) \<in> required_titles)
                             (work_experience candidate).
               compute_duration_years ext (exp_start_date exp)
                 (Some (case exp_end_date exp of Some e \<Rightarrow> e | None \<Rightarrow> now ext)));
          required_years = parse_experience_level (level_of_experience job);
          recent_role_match =
            (case work_experience candidate of
               [] \<Rightarrow> 0
             | e # es \<Rightarrow>
                 (let most_recent = max_by exp_start_date e es;
                      mapped_recent = map_title (position most_recent)
                  in if mapped_recent \<in> required_titles then 1 else 0))
      in [''total_years_experience'' \<mapsto> total_years,
          ''title_similarity_score'' \<mapsto> title_similarity_score,
          ''years_experience_in_required_titles'' \<mapsto> years_in_required,
          ''experience_approval'' \<mapsto> (if total_years \<ge> required_years then 1 else 0),
          ''recent_role_match'' \<mapsto> recent_role_match])"

text \<open>The name a requirement entry is looked up under, and its criticality.\<close>

definition lang_name_of :: "extern \<Rightarrow> lang_req \<Rightarrow> string" where
  "lang_name_of ext lang_req =
     (case languages lang_req of
        Some (LangDict d) \<Rightarrow> (case d of Some l \<Rightarrow> l | None \<Rightarrow> [])
      | Some (LangProficiency p) \<Rightarrow> str_proficiency ext p
      | Some (LangStr s) \<Rightarrow> s
      | None \<Rightarrow> [])"

definition critical_level_of :: "lang_req \<Rightarrow> real" where
  "critical_level_of lang_req = (case Level_of_cretical lang_req of Some v \<Rightarrow> v | None \<Rightarrow> 0)"

definition extract_language_features :: "extern \<Rightarrow> Candidate \<Rightarrow> JobPosition \<Rightarrow> features" where
  "extract_language_features ext candidate job =
     (let mandatory_languages =
            map (\<lambda>lang_req. (lang_name_of ext lang_req, critical_level_of lang_req))
                (filter (\<lambda>lang_req. critical_level_of lang_req > 0) (job_languages job));
          preferred_languages =
            map (lang_name_of ext)
                (filter (\<lambda>lang_req. \<not> critical_level_of lang_req > 0) (job_languages job));
          checked =
            map (\<lambda>(lang_name, required_level).
                   (get_candidate_language_level candidate lang_name,
                    level_to_ordinal (str_int (py_int required_level))))
                mandatory_languages;
          mandatory_satisfied =
            length (filter (\<lambda>(candidate_level, required_ordinal). candidate_level \<ge> required_ordinal)
                           checked);
          language_gaps =
            map (\<lambda>(candidate_level, required_ordinal). real_of_int (candidate_level - required_ordinal))
                checked;
          num_mandatory = (if mandatory_languages \<noteq> [] then length mandatory_languages else 1);
          preferred_satisfied =
            length (filter (\<lambda>lang_name. get_candidate_language_level candidate lang_name > 0)
                           preferred_languages);
          num_preferred = (if preferred_languages \<noteq> [] then length preferred_languages else 1)
      in [''mandatory_language_coverage_ratio'' \<mapsto>
            (if num_mandatory > 0 then real mandatory_satisfied / real num_mandatory else 1),
          ''all_mandatory_languages_ok'' \<mapsto> (if mandatory_satisfied = num_mandatory then 1 else 0),
          ''preferred_language_coverage_ratio'' \<mapsto>
            (if num_preferred > 0 then real preferred_satisfied / real num_preferred else 0),
          ''avg_language_gap'' \<mapsto>
            (if language_gaps \<noteq> [] then sum_list language_gaps / real (length language_gaps)
             else 0)])"

text \<open>\<^verbatim>\<open>skill.importance or 1.0\<close>: \<^verbatim>\<open>None\<close> and \<open>0.0\<close> both give \<open>1.0\<close>.\<close>

definition importance_or_1 :: "Skill \<Rightarrow> real" where
  "importance_or_1 skill =
     (case importance skill of None \<Rightarrow> 1 | Some w \<Rightarrow> if w = 0 then 1 else w)"

definition extract_skills_features :: "extern \<Rightarrow> Candidate \<Rightarrow> JobPosition \<Rightarrow> features" where
  "extract_skills_features ext candidate job =
     (let candidate_skill_ids = set (map (\<lambda>skill. map_skill (skill_name skill)) (cand_skills candidate));
          job_skill_ids = set (map (\<lambda>skill. map_skill (skill_name skill)) (job_skills job));
          overlap = candidate_skill_ids \<inter> job_skill_ids;
          skill_overlap_ratio =
            (if job_skill_ids \<noteq> {} then real (card overlap) / real (card job_skill_ids) else 0);
          total_importance = (\<Sum>skill \<leftarrow> job_skills job. importance_or_1 skill);
          matched_importance =
            (\<Sum>skill \<leftarrow> filter (\<lambda>skill. map_skill (skill_name skill) \<in> candidate_skill_ids)
                               (job_skills job).
               importance_or_1 skill);
          skill_embedding_similarity =
            (if cand_skills candidate \<noteq> [] \<and> job_skills job \<noteq> []
             then (let candidate_emb = mean_rows (encode ext (map skill_name (cand_skills candidate)));
                       job_emb = mean_rows (encode ext (map skill_name (job_skills job)))
                   in cosine_similarity (embedding_dim ext) candidate_emb job_emb)
             else 0)
      in [''num_required_skills'' \<mapsto> real (card job_skill_ids),
          ''skill_overlap_count'' \<mapsto> real (card overlap),
          ''skill_overlap_ratio'' \<mapsto> skill_overlap_ratio,
          ''weighted_skill_match_score'' \<mapsto>
            (if total_importance > 0 then matched_importance / total_importance else 0),
          ''mandatory_skill_coverage_ratio'' \<mapsto> skill_overlap_ratio,
          ''skill_embedding_similarity'' \<mapsto> skill_embedding_similarity])"

definition extract_location_features :: "extern \<Rightarrow> Candidate \<Rightarrow> JobPosition \<Rightarrow> features" where
  "extract_location_features ext candidate job =
     (if lower (presence_type job) = ''online''
      then [''location_relevant'' \<mapsto> 0, ''geodesic_distance'' \<mapsto> 0, ''location_match'' \<mapsto> 1]
      else (let distance =
                  compute_geodesic_distance ext (cand_city candidate) (cand_country candidate)
                    (job_city job) (job_country job);
                same_city = (lower (cand_city candidate) = lower (job_city job));
                same_country = (lower (cand_country candidate) = lower (job_country job))
            in [''location_relevant'' \<mapsto> 1,
                ''geodesic_distance'' \<mapsto> distance,
                ''location_match'' \<mapsto>
                  (if same_city \<and> same_country then 1
                   else if ready_to_relocate candidate then 1
                   else 0)]))"

definition extract_mandatory_criteria_features :: "Candidate \<Rightarrow> JobPosition \<Rightarrow> features" where
  "extract_mandatory_criteria_features candidate job =
     (let total_criteria =
            (if critical_requirements job \<noteq> [] then length (critical_requirements job) else 0);
          passed_count = fold (\<lambda>req passed. passed + 1) (critical_requirements job) (0::nat)
      in [''num_mandatory_criteria_passed'' \<mapsto> real passed_count,
          ''mandatory_criteria_all_pass'' \<mapsto> (if passed_count = total_criteria then 1 else 0)])"

definition or_empty :: "string option \<Rightarrow> string" where
  "or_empty s = (case s of None \<Rightarrow> [] | Some t \<Rightarrow> t)"

definition extract_global_text_similarity :: "extern \<Rightarrow> Candidate \<Rightarrow> JobPosition \<Rightarrow> features" where
  "extract_global_text_similarity ext candidate job =
     (let candidate_texts =
            map (\<lambda>exp. position exp @ '' '' @ exp_description exp) (work_experience candidate);
          candidate_text = join '' '' candidate_texts;
          job_text = title job @ '' '' @ description job @ '' '' @ or_empty (qualifications job)
                     @ '' '' @ or_empty (responsibilities job)
      in [''global_text_similarity'' \<mapsto>
            (if candidate_text \<noteq> [] \<and> job_text \<noteq> []
             then cosine_similarity (embedding_dim ext)
                    (encode_single ext candidate_text) (encode_single ext job_text)
             else 0)])"

text \<open>\<^verbatim>\<open>all_features.update(d)\<close> is \<^term>\<open>all_features ++ d\<close>.\<close>

definition extract_all_features :: "extern \<Rightarrow> Candidate \<Rightarrow> JobPosition \<Rightarrow> features" where
  "extract_all_features ext candidate job =
     Map.empty
       ++ extract_education_features candidate job
       ++ extract_experience_features ext candidate job
       ++ extract_language_features ext candidate job
       ++ extract_skills_features ext candidate job
       ++ extract_location_features ext candidate job
       ++ extract_mandatory_criteria_features candidate job
       ++ extract_global_text_similarity ext candidate job"

section \<open>scoring.py\<close>

record weight_config =
  w_edu :: real
  w_exp :: real
  w_lang :: real
  w_skill :: real

record layer_scores =
  S_edu :: real
  S_exp :: real
  S_lang :: real
  S_skill :: real
  S_base :: real
  weights :: weight_config

text \<open>\<^verbatim>\<open>features.get(key, default)\<close> and \<^verbatim>\<open>features[key]\<close>\<close>

definition get_or :: "features \<Rightarrow> string \<Rightarrow> real \<Rightarrow> real" where
  "get_or fs key dflt = (case fs key of Some v \<Rightarrow> v | None \<Rightarrow> dflt)"

definition item :: "features \<Rightarrow> string \<Rightarrow> error + real" where
  "item fs key = (case fs key of Some v \<Rightarrow> Inr v | None \<Rightarrow> Inl (KeyError key))"

definition research_keywords :: "string list" where
  "research_keywords = [''research'', ''scientist'', ''r&d'', ''phd'', ''postdoc'']"

definition get_weight_config :: "JobPosition \<Rightarrow> weight_config" where
  "get_weight_config job =
     (let text = lower (title job) @ '' '' @ lower (description job);
          is_research = list_ex (\<lambda>kw. sublist kw text) research_keywords
      in if is_research
         then \<lparr>w_edu = 0.35, w_exp = 0.25, w_lang = 0.15, w_skill = 0.25\<rparr>
         else \<lparr>w_edu = 0.15, w_exp = 0.45, w_lang = 0.15, w_skill = 0.25\<rparr>)"

definition compute_education_score :: "features \<Rightarrow> error + real" where
  "compute_education_score fs =
     (case item fs ''has_required_degree_level'' of
        Inl e \<Rightarrow> Inl e
      | Inr has_level \<Rightarrow>
          if has_level = 0 then Inr 0
          else (let base0 = 0.7;
                    base1 = (if get_or fs ''field_match_score'' 0 > 0.5 then base0 + 0.2 else base0);
                    base2 = (if get_or fs ''field_match_score'' 0 > 0.8 then base1 + 0.1 else base1)
                in Inr (min base2 1)))"

definition compute_experience_score :: "features \<Rightarrow> JobPosition \<Rightarrow> error + real" where
  "compute_experience_score fs job =
     (let required_years = parse_experience_level (level_of_experience job)
      in case item fs ''total_years_experience'' of
           Inl e \<Rightarrow> Inl e
         | Inr total_years \<Rightarrow>
             (let exp_total_score =
                    (if required_years > 0 then min (total_years / max required_years 1) 1 else 1)
              in case item fs ''years_experience_in_required_titles'' of
                   Inl e \<Rightarrow> Inl e
                 | Inr years_in_role \<Rightarrow>
                     (let exp_role_score =
                            (if required_years > 0 then min (years_in_role / max required_years 1) 1
                             else 1);
                          title_similarity = get_or fs ''title_similarity_score'' 0;
                          title_similarity_normalized = (title_similarity + 1) / 2;
                          s_exp = 0.4 * exp_total_score + 0.3 * exp_role_score
                                  + 0.3 * title_similarity_normalized
                      in Inr (min (max s_exp 0) 1))))"

definition compute_language_score :: "features \<Rightarrow> real" where
  "compute_language_score fs =
     (if get_or fs ''all_mandatory_languages_ok'' 0 = 0 then 0
      else (let mandatory_ratio = get_or fs ''mandatory_language_coverage_ratio'' 0;
                preferred_ratio = get_or fs ''preferred_language_coverage_ratio'' 0;
                s_lang = 0.7 * mandatory_ratio + 0.3 * preferred_ratio
            in min (max s_lang 0) 1))"

definition compute_skills_score :: "features \<Rightarrow> real" where
  "compute_skills_score fs =
     (if get_or fs ''mandatory_skill_coverage_ratio'' 0 < 0.5 then 0
      else (let overlap_ratio = get_or fs ''skill_overlap_ratio'' 0;
                weighted_match = get_or fs ''weighted_skill_match_score'' 0;
                s_skill = 0.6 * overlap_ratio + 0.4 * weighted_match
            in min (max s_skill 0) 1))"

definition compute_aggregated_score ::
  "extern \<Rightarrow> Candidate \<Rightarrow> JobPosition \<Rightarrow> error + (real \<times> layer_scores)" where
  "compute_aggregated_score ext candidate job =
     (let fs = extract_all_features ext candidate job
      in case compute_education_score fs of
           Inl e \<Rightarrow> Inl e
         | Inr s_edu \<Rightarrow>
             (case compute_experience_score fs job of
                Inl e \<Rightarrow> Inl e
              | Inr s_exp \<Rightarrow>
                  (let s_lang = compute_language_score fs;
                       s_skill = compute_skills_score fs;
                       ws = get_weight_config job;
                       s_base = w_edu ws * s_edu + w_exp ws * s_exp + w_lang ws * s_lang
                                + w_skill ws * s_skill
                   in Inr (s_base,
                           \<lparr>S_edu = s_edu, S_exp = s_exp, S_lang = s_lang, S_skill = s_skill,
                            S_base = s_base, weights = ws\<rparr>))))"

text \<open>\<^verbatim>\<open>HardFilter\<close> is constructed with the feature extractor it uses; \<open>extract\<close> is that
  extractor's \<^verbatim>\<open>extract_all_features\<close>.\<close>

definition should_filter_out ::
  "(Candidate \<Rightarrow> JobPosition \<Rightarrow> features) \<Rightarrow> Candidate \<Rightarrow> JobPosition \<Rightarrow> bool \<times> string" where
  "should_filter_out extract candidate job =
     (let fs = extract candidate job
      in if get_or fs ''mandatory_criteria_all_pass'' 0 = 0
         then (True, ''Failed mandatory criteria'')
         else if get_or fs ''all_mandatory_languages_ok'' 0 = 0
         then (True, ''Mandatory languages not satisfied'')
         else if lower (presence_type job) \<noteq> ''online'' \<and> get_or fs ''location_match'' 0 = 0
         then (True, ''Location mismatch and candidate not willing to relocate'')
         else (False, ''Passed all hard filters''))"

section \<open>inference.py\<close>

text \<open>
  \<^verbatim>\<open>RecommenderSystem\<close> is constructed with the learned model's wrapper and the hard filter.
  The wrapper's \<^verbatim>\<open>prepare_features\<close> and the two towers of the network are taken as they
  come; the explanation attached to each result is carried along and not inspected.
  \<^verbatim>\<open>list.sort(key=..., reverse=True)\<close> is a stable sort on the negated key.
\<close>

record ModelWrapper =
  prepare_features :: "Candidate \<Rightarrow> JobPosition \<Rightarrow> real list \<times> real list"
  encode_candidate :: "real list \<times> real list \<Rightarrow> real list"
  encode_job :: "real list \<times> real list \<Rightarrow> real list"

record 'e RecommenderSystem =
  model :: ModelWrapper
  hard_filter :: "Candidate \<Rightarrow> JobPosition \<Rightarrow> bool \<times> string"
  generate_explanation :: "Candidate \<Rightarrow> JobPosition \<Rightarrow> real \<Rightarrow> 'e"

definition repr_product_sum :: "real list \<Rightarrow> real list \<Rightarrow> real" where
  "repr_product_sum a b = (\<Sum>(x, y) \<leftarrow> zip a b. x * y)"

definition sort_by_score_desc :: "('a \<times> real \<times> 'e) list \<Rightarrow> ('a \<times> real \<times> 'e) list" where
  "sort_by_score_desc results = sort_key (\<lambda>x. - fst (snd x)) results"

definition recommend_candidates_for_job ::
  "'e RecommenderSystem \<Rightarrow> JobPosition \<Rightarrow> Candidate list \<Rightarrow> int \<Rightarrow> bool
     \<Rightarrow> (Candidate \<times> real \<times> 'e) list" where
  "recommend_candidates_for_job rs job candidate_pool top_k apply_hard_filter =
     (let filtered_candidates =
            (if apply_hard_filter
             then filter (\<lambda>candidate. \<not> fst (hard_filter rs candidate job)) candidate_pool
             else candidate_pool)
      in if filtered_candidates = [] then []
         else (let job_repr =
                     encode_job (model rs) (prepare_features (model rs) (hd filtered_candidates) job);
                   results =
                     map (\<lambda>candidate.
                            (let candidate_repr =
                                   encode_candidate (model rs)
                                     (prepare_features (model rs) candidate job);
                                 score = repr_product_sum candidate_repr job_repr
                             in (candidate, score, generate_explanation rs candidate job score)))
                         filtered_candidates
               in slice_to (sort_by_score_desc results) top_k))"

section \<open>metrics.py\<close>

text \<open>
  \<^verbatim>\<open>np.argsort\<close> is NumPy's: it returns the indices that would sort the array, and its
  default sort is not stable, so the order of the indices of equal values is not fixed.
  \<open>ndcg_at_k\<close> takes it as \<open>argsort\<close>; what NumPy promises of its result is
  \<open>valid_argsort\<close>: a permutation of the indices along which the values ascend.
  \<open>stable_argsort\<close> is one such function, with equal values in index order.
\<close>

definition valid_argsort :: "real list \<Rightarrow> nat list \<Rightarrow> bool" where
  "valid_argsort xs order \<longleftrightarrow>
     mset order = mset [0..<length xs] \<and> sorted (map (\<lambda>i. xs ! i) order)"

definition stable_argsort :: "real list \<Rightarrow> nat list" where
  "stable_argsort xs = sort_key (\<lambda>i. xs ! i) [0..<length xs]"

definition dcg_at_k :: "real list \<Rightarrow> int \<Rightarrow> real" where
  "dcg_at_k relevances k =
     (let rel = slice_to relevances k
      in if rel = [] then 0
         else (\<Sum>i \<leftarrow> [0..<length rel]. (2 powr (rel ! i) - 1) / log 2 (real (i + 2))))"

definition ndcg_at_k ::
  "(real list \<Rightarrow> nat list) \<Rightarrow> real list \<Rightarrow> real list \<Rightarrow> int \<Rightarrow> error + real" where
  "ndcg_at_k argsort true_relevances predicted_scores k =
     (if true_relevances = [] then Inr 0
      else (let order = rev (argsort predicted_scores)
            in if list_ex (\<lambda>i. i \<ge> length true_relevances) order then Inl IndexError
               else (let rel_pred = map (\<lambda>i. true_relevances ! i) order;
                         dcg = dcg_at_k rel_pred k;
                         ideal_order = rev (argsort true_relevances);
                         rel_ideal = map (\<lambda>i. true_relevances ! i) ideal_order;
                         idcg = dcg_at_k rel_ideal k
                     in if idcg = 0 then Inr 0 else Inr (dcg / idcg))))"

section \<open>example\_usage.py\<close>

text \<open>\<^verbatim>\<open>datetime(y, m, d)\<close>, given as the number of its day counted from 1970-01-01.\<close>

definition midnight :: "int \<Rightarrow> datetime" where
  "midnight day = day * microseconds_per_day"

definition example_candidate :: Candidate where
  "example_candidate =
     \<lparr>candidate_id = ''C001'', first_name = ''John'', second_name = ''Doe'',
      phone_number = ''+1234567890'', date_of_birth = Some (midnight 7305), gender = None,
      cand_country = ''USA'', cand_city = ''New York'', ready_to_relocate = True,
      education =
        [\<lparr>level_of_education = ''Master'', department = ''Computer Science'',
          speciality = ''Machine Learning'', university = ''MIT'', edu_country = ''USA'',
          edu_start_date = midnight 15584, edu_end_date = Some (midnight 16222)\<rparr>],
      work_experience =
        [\<lparr>company_name = ''Tech Corp'', position = ''Software Engineer'',
          exp_start_date = midnight 16252, exp_end_date = Some (midnight 17347),
          is_present = False,
          exp_description = ''Developed machine learning models for recommendation systems'',
          exp_country = ''USA'', type_of_work = ''Full-time''\<rparr>,
         \<lparr>company_name = ''AI Startup'', position = ''Senior Data Scientist'',
          exp_start_date = midnight 17348, exp_end_date = None, is_present = True,
          exp_description = ''Lead ML projects and build production recommendation systems'',
          exp_country = ''USA'', type_of_work = ''Full-time''\<rparr>],
      cand_languages =
        [\<lparr>language = ''English'', level = ''Native''\<rparr>,
         \<lparr>language = ''Spanish'', level = ''B2''\<rparr>],
      cand_skills =
        [\<lparr>skill_id = ''SK001'', skill_name = ''Python'', importance = Some 1.0\<rparr>,
         \<lparr>skill_id = ''SK002'', skill_name = ''Java'', importance = Some 0.8\<rparr>,
         \<lparr>skill_id = ''SK005'', skill_name = ''Machine Learning'', importance = Some 1.0\<rparr>,
         \<lparr>skill_id = ''SK006'', skill_name = ''Deep Learning'', importance = Some 0.9\<rparr>]\<rparr>"

definition example_job :: JobPosition where
  "example_job =
     \<lparr>organizationId = ''ORG001'', status = ''Open'',
      title = ''Senior Machine Learning Engineer'',
      description =
        ''We are looking for an experienced ML engineer to build recommendation systems'',
      job_city = ''San Francisco'', job_country = ''USA'',
      job_start_date = midnight 19723, job_end_date = midnight 20088,
      presence_type = ''hybrid'',
      job_languages =
        [\<lparr>languages = Some (LangProficiency \<lparr>language = ''English'', level = ''C1''\<rparr>),
          Level_of_cretical = Some 5.0\<rparr>],
      level_of_experience = ''Senior (5+ years)'',
      offer_description = ''Competitive salary and benefits'',
      number_of_volunteers = 0, type_of_presence = [],
      education_level = Some ''Master'', education_speciality = Some ''Machine Learning'',
      experience = None, education_department = Some ''Computer Science'', job_notes = None,
      qualifications = Some ''5+ years of ML experience, strong Python skills'',
      responsibilities = Some ''Design and implement ML models for production'',
      job_skills =
        [\<lparr>skill_id = ''SK001'', skill_name = ''Python'', importance = Some 1.0\<rparr>,
         \<lparr>skill_id = ''SK005'', skill_name = ''Machine Learning'', importance = Some 1.0\<rparr>,
         \<lparr>skill_id = ''SK006'', skill_name = ''Deep Learning'', importance = Some 0.9\<rparr>],
      critical_requirements =
        [\<lparr>cr_id = ''CR001'', requirements = ''Must have 5+ years ML experience'',
          Degree = 1.0\<rparr>]\<rparr>"

section \<open>Inputs for the properties below\<close>

text \<open>The example candidate, claiming English at level B2 only.\<close>

definition candidate_english_B2 :: Candidate where
  "candidate_english_B2 =
     example_candidate\<lparr>cand_languages := [\<lparr>language = ''English'', level = ''B2''\<rparr>]\<rparr>"

text \<open>The example job without any language requirement.\<close>

definition job_no_languages :: JobPosition where
  "job_no_languages = example_job\<lparr>job_languages := []\<rparr>"

text \<open>A candidate whose only skill is Java, and a job asking for Python (weight 1.0) and Java
  (weight 0.2).\<close>

definition candidate_java_only :: Candidate where
  "candidate_java_only =
     example_candidate\<lparr>cand_skills :=
       [\<lparr>skill_id = ''SK002'', skill_name = ''Java'', importance = Some 0.8\<rparr>]\<rparr>"

definition job_two_skills :: JobPosition where
  "job_two_skills =
     example_job\<lparr>job_skills :=
       [\<lparr>skill_id = ''SK001'', skill_name = ''Python'', importance = Some 1.0\<rparr>,
        \<lparr>skill_id = ''SK002'', skill_name = ''Java'', importance = Some 0.2\<rparr>]\<rparr>"

text \<open>Collaborators whose embedder sets the text of the example job against every other
  text.\<close>

definition opposing_extern :: extern where
  "opposing_extern =
     \<lparr>now = midnight 19723,
      embed = (\<lambda>text i. if prefix ''Senior Machine'' text then 1 else - 1),
      embedding_dim = 1,
      geodesic_km = (\<lambda>a b. 0),
      str_proficiency = (\<lambda>p. language p)\<rparr>"



text \<open>Three candidates and a recommender whose learned model scores them 0.2, 0.9 and 0.5,
  with a hard filter that lets everyone pass.\<close>

definition candidate_A :: Candidate where
  "candidate_A = example_candidate\<lparr>candidate_id := ''A''\<rparr>"

definition candidate_B :: Candidate where
  "candidate_B = example_candidate\<lparr>candidate_id := ''B''\<rparr>"

definition candidate_C :: Candidate where
  "candidate_C = example_candidate\<lparr>candidate_id := ''C''\<rparr>"

definition example_system :: "unit RecommenderSystem" where
  "example_system =
     \<lparr>model =
        \<lparr>prepare_features =
           (\<lambda>candidate job.
              ([if candidate_id candidate = ''A'' then 0.2
                else if candidate_id candidate = ''B'' then 0.9 else 0.5], [])),
         encode_candidate = fst,
         encode_job = (\<lambda>job_input. [1])\<rparr>,
      hard_filter = (\<lambda>candidate job. (False, ''Passed all hard filters'')),
      generate_explanation = (\<lambda>candidate job score. ())\<rparr>"

text \<open>The predicted scores respect the relevances: of two items, the one of strictly higher
  relevance has the strictly higher score.\<close>

definition scores_respect_relevance :: "real list \<Rightarrow> real list \<Rightarrow> bool" where
  "scores_respect_relevance true_relevances predicted_scores =
     list_all (\<lambda>i. list_all (\<lambda>j. true_relevances ! j \<le> true_relevances ! i
                                  \<or> predicted_scores ! i < predicted_scores ! j)
                           [0..<length true_relevances])
              [0..<length true_relevances]"

section \<open>Properties\<close>

subsection \<open>The keys of the feature dictionaries\<close>

lemma dom_extract_education_features:
  "dom (extract_education_features c j) =
     {''candidate_highest_degree_level'', ''required_min_degree_level'', ''degree_level_gap'',
      ''has_required_degree_level'', ''field_match_score''}"
  unfolding extract_education_features_def Let_def
  by (simp only: dom_fun_upd dom_empty) auto

lemma dom_extract_experience_features:
  "dom (extract_experience_features ext c j) =
     {''total_years_experience'', ''title_similarity_score'',
      ''years_experience_in_required_titles'', ''experience_approval'', ''recent_role_match''}"
  unfolding extract_experience_features_def Let_def
  by (simp only: dom_fun_upd dom_empty) auto

lemma dom_extract_language_features:
  "dom (extract_language_features ext c j) =
     {''mandatory_language_coverage_ratio'', ''all_mandatory_languages_ok'',
      ''preferred_language_coverage_ratio'', ''avg_language_gap''}"
  unfolding extract_language_features_def Let_def
  by (simp only: dom_fun_upd dom_empty) auto

lemma dom_extract_skills_features:
  "dom (extract_skills_features ext c j) =
     {''num_required_skills'', ''skill_overlap_count'', ''skill_overlap_ratio'',
      ''weighted_skill_match_score'', ''mandatory_skill_coverage_ratio'',
      ''skill_embedding_similarity''}"
  unfolding extract_skills_features_def Let_def
  by (simp only: dom_fun_upd dom_empty) auto

lemma dom_extract_location_features:
  "dom (extract_location_features ext c j) =
     {''location_relevant'', ''geodesic_distance'', ''location_match''}"
  unfolding extract_location_features_def Let_def
  by (simp only: dom_fun_upd dom_empty if_distrib [of dom]) auto

lemma dom_extract_mandatory_criteria_features:
  "dom (extract_mandatory_criteria_features c j) =
     {''num_mandatory_criteria_passed'', ''mandatory_criteria_all_pass''}"
  unfolding extract_mandatory_criteria_features_def Let_def
  by (simp only: dom_fun_upd dom_empty) auto

lemma dom_extract_global_text_similarity:
  "dom (extract_global_text_similarity ext c j) = {''global_text_similarity''}"
  unfolding extract_global_text_similarity_def Let_def
  by (simp only: dom_fun_upd dom_empty) auto

lemmas dom_extractors =
  dom_extract_education_features dom_extract_experience_features dom_extract_language_features
  dom_extract_skills_features dom_extract_location_features
  dom_extract_mandatory_criteria_features dom_extract_global_text_similarity

lemma all_features_education:
  "k \<in> dom (extract_education_features c j) \<Longrightarrow>
   extract_all_features ext c j k = extract_education_features c j k"
  unfolding extract_all_features_def
  by (auto simp: map_add_dom_app_simps dom_extractors)


lemma all_features_language:
  "k \<in> dom (extract_language_features ext c j) \<Longrightarrow>
   extract_all_features ext c j k = extract_language_features ext c j k"
  unfolding extract_all_features_def
  by (auto simp: map_add_dom_app_simps dom_extractors)

lemma all_features_skills:
  "k \<in> dom (extract_skills_features ext c j) \<Longrightarrow>
   extract_all_features ext c j k = extract_skills_features ext c j k"
  unfolding extract_all_features_def
  by (auto simp: map_add_dom_app_simps dom_extractors)

lemma all_features_location:
  "k \<in> dom (extract_location_features ext c j) \<Longrightarrow>
   extract_all_features ext c j k = extract_location_features ext c j k"
  unfolding extract_all_features_def
  by (auto simp: map_add_dom_app_simps dom_extractors)

lemma all_features_criteria:
  "k \<in> dom (extract_mandatory_criteria_features c j) \<Longrightarrow>
   extract_all_features ext c j k = extract_mandatory_criteria_features c j k"
  unfolding extract_all_features_def
  by (auto simp: map_add_dom_app_simps dom_extractors)

subsection \<open>Mandatory criteria\<close>

lemma passed_count_eq: "fold (\<lambda>req passed. passed + 1) rs (n::nat) = n + length rs"
  by (induction rs arbitrary: n) auto

lemma criteria_passed_count:
  "extract_mandatory_criteria_features c j ''num_mandatory_criteria_passed''
     = Some (real (length (critical_requirements j)))"
  unfolding extract_mandatory_criteria_features_def Let_def passed_count_eq
  by simp

lemma criteria_all_pass:
  "extract_mandatory_criteria_features c j ''mandatory_criteria_all_pass'' = Some 1"
  unfolding extract_mandatory_criteria_features_def Let_def passed_count_eq
  by simp

text \<open>
  Claim C10. For every candidate and every job, whatever its list of critical requirements,
  \<open>extract_mandatory_criteria_features\<close> counts every requirement as passed, so the feature
  \<open>mandatory_criteria_all_pass\<close> is 1; hence the hard filter built on this extractor never
  takes its first branch and never answers "Failed mandatory criteria".
\<close>

theorem mandatory_criteria_always_pass:
  "extract_all_features ext c j ''num_mandatory_criteria_passed''
     = Some (real (length (critical_requirements j)))
   \<and> extract_all_features ext c j ''mandatory_criteria_all_pass'' = Some 1
   \<and> get_or (extract_all_features ext c j) ''mandatory_criteria_all_pass'' 0 \<noteq> 0
   \<and> snd (should_filter_out (extract_all_features ext) c j) \<noteq> ''Failed mandatory criteria''"
proof -
  have n: "extract_all_features ext c j ''num_mandatory_criteria_passed''
             = Some (real (length (critical_requirements j)))"
    by (simp add: all_features_criteria dom_extractors criteria_passed_count)
  have k: "extract_all_features ext c j ''mandatory_criteria_all_pass'' = Some 1"
    by (simp add: all_features_criteria dom_extractors criteria_all_pass)
  then have g: "get_or (extract_all_features ext c j) ''mandatory_criteria_all_pass'' 0 = 1"
    by (simp add: get_or_def)
  show ?thesis using n k g
    by (simp add: should_filter_out_def Let_def)
qed

subsection \<open>Language levels\<close>

lemma digit_char_mem: "d < 10 \<Longrightarrow> digit_char d \<in> set ''0123456789''"
  unfolding digit_char_def by (rule nth_mem) simp

lemma str_nat_digits: "str_nat n \<noteq> [] \<and> set (str_nat n) \<subseteq> set ''0123456789''"
proof (induction n rule: str_nat.induct)
  case (1 n)
  show ?case
  proof (cases "n < 10")
    case True
    then have "str_nat n = [digit_char n]" by (simp add: str_nat.simps)
    then show ?thesis using digit_char_mem [OF True] by simp
  next
    case False
    then have e: "str_nat n = str_nat (n div 10) @ [digit_char (n mod 10)]"
      by (subst str_nat.simps) simp
    have m: "digit_char (n mod 10) \<in> set ''0123456789''" by (rule digit_char_mem) simp
    from 1 [OF False] have "set (str_nat (n div 10)) \<subseteq> set ''0123456789''" by blast
    with m show ?thesis unfolding e by simp
  qed
qed

lemma str_int_head: "\<exists>a t. str_int i = a # t \<and> a \<in> set ''-0123456789''"
proof (cases "i < 0")
  case True
  then show ?thesis by (simp add: str_int_def)
next
  case False
  obtain a t where at: "str_nat (nat i) = a # t"
    using str_nat_digits [of "nat i"] by (cases "str_nat (nat i)") auto
  then have "a \<in> set ''0123456789''" using str_nat_digits [of "nat i"] by auto
  then have "a \<in> set ''-0123456789''" by simp
  with at False show ?thesis by (simp add: str_int_def)
qed


lemma upper_char_no_letter: "c \<in> set ''-0123456789'' \<Longrightarrow> upper_char c = c"
  unfolding upper_char_def by (simp, elim disjE) simp_all

lemma level_keys_head: "(k, v) \<in> set LEVEL_ORDINAL \<Longrightarrow> hd k \<in> set ''ABCN'' \<and> 0 \<le> v"
  unfolding LEVEL_ORDINAL_def by (simp, elim disjE) simp_all

lemma map_of_LEVEL_ORDINAL_head:
  assumes "a \<in> set ''-0123456789''"
  shows "map_of LEVEL_ORDINAL (a # t) = None"
proof (cases "map_of LEVEL_ORDINAL (a # t)")
  case None
  then show ?thesis .
next
  case (Some v)
  then have "hd (a # t) \<in> set ''ABCN''" using level_keys_head map_of_SomeD by fast
  with assms show ?thesis by auto
qed

lemma level_to_ordinal_str_int: "level_to_ordinal (str_int i) = 0"
proof -
  obtain a t where at: "str_int i = a # t" and a: "a \<in> set ''-0123456789''"
    using str_int_head by blast
  have "upper (str_int i) = a # upper t"
    unfolding at upper_def using upper_char_no_letter [OF a] by simp
  then show ?thesis
    unfolding level_to_ordinal_def using map_of_LEVEL_ORDINAL_head [OF a] by simp
qed

lemma level_to_ordinal_nonneg: "0 \<le> level_to_ordinal s"
proof (cases "map_of LEVEL_ORDINAL (upper s)")
  case None
  then show ?thesis by (simp add: level_to_ordinal_def)
next
  case (Some v)
  then have "0 \<le> v" using level_keys_head map_of_SomeD by fast
  with Some show ?thesis by (simp add: level_to_ordinal_def)
qed

lemma candidate_level_in_nonneg: "0 \<le> candidate_level_in ls l"
  by (induction ls) (auto simp: level_to_ordinal_nonneg)

lemma candidate_level_nonneg: "0 \<le> get_candidate_language_level c l"
  unfolding get_candidate_language_level_def by (rule candidate_level_in_nonneg)

text \<open>
  Claim C8. The table \<open>LEVEL_ORDINAL\<close> gives the label \<^verbatim>\<open>Native\<close> the ordinal 7, but
  \<open>level_to_ordinal\<close> looks up the upper-cased label \<^verbatim>\<open>NATIVE\<close>, which is not a key: the
  label \<^verbatim>\<open>Native\<close> is mapped to 0. The labels A1 to C2 are mapped to 1 to 6.
\<close>

theorem level_to_ordinal_Native:
  "map_of LEVEL_ORDINAL ''Native'' = Some 7 \<and> level_to_ordinal ''Native'' = 0
   \<and> map level_to_ordinal [''A1'', ''A2'', ''B1'', ''B2'', ''C1'', ''C2''] = [1, 2, 3, 4, 5, 6]"
  by (simp add: level_to_ordinal_def LEVEL_ORDINAL_def upper_def upper_char_def)

subsection \<open>Language features\<close>

lemma all_mandatory_checked:
  "filter (\<lambda>(candidate_level, required_ordinal). candidate_level \<ge> required_ordinal)
     (map (\<lambda>(lang_name, required_level).
             (get_candidate_language_level c lang_name,
              level_to_ordinal (str_int (py_int required_level)))) ms)
   = map (\<lambda>(lang_name, required_level).
             (get_candidate_language_level c lang_name,
              level_to_ordinal (str_int (py_int required_level)))) ms"
  by (rule filter_True) (auto simp: level_to_ordinal_str_int candidate_level_nonneg)

text \<open>Every mandatory requirement counts as satisfied, whatever the candidate claims; the
  two mandatory-language features only tell whether the job has a mandatory requirement.\<close>

lemma language_ok_value:
  "extract_language_features ext c j ''all_mandatory_languages_ok''
     = Some (if filter (\<lambda>lang_req. critical_level_of lang_req > 0) (job_languages j) = []
             then 0 else 1)"
  unfolding extract_language_features_def Let_def all_mandatory_checked
  by simp

lemma language_ratio_value:
  "extract_language_features ext c j ''mandatory_language_coverage_ratio''
     = Some (if filter (\<lambda>lang_req. critical_level_of lang_req > 0) (job_languages j) = []
             then 0 else 1)"
  unfolding extract_language_features_def Let_def all_mandatory_checked
  by simp

subsection \<open>Layer scores\<close>

lemma dom_extract_all_features:
  "dom (extract_all_features ext c j) =
     dom (extract_education_features c j) \<union> dom (extract_experience_features ext c j)
     \<union> dom (extract_language_features ext c j) \<union> dom (extract_skills_features ext c j)
     \<union> dom (extract_location_features ext c j) \<union> dom (extract_mandatory_criteria_features c j)
     \<union> dom (extract_global_text_similarity ext c j)"
  unfolding extract_all_features_def by auto

lemma language_preferred_value_none:
  "filter (\<lambda>lang_req. \<not> critical_level_of lang_req > 0) (job_languages j) = [] \<Longrightarrow>
   extract_language_features ext c j ''preferred_language_coverage_ratio'' = Some 0"
  unfolding extract_language_features_def Let_def
  by simp

lemma item_Some: "fs k = Some v \<Longrightarrow> item fs k = Inr v"
  by (simp add: item_def)

lemma education_score_range:
  assumes "fs ''has_required_degree_level'' = Some v"
  shows "\<exists>s. compute_education_score fs = Inr s \<and> 0 \<le> s \<and> s \<le> 1"
  using assms by (simp add: compute_education_score_def item_def Let_def)

lemma experience_score_range:
  assumes "fs ''total_years_experience'' = Some t"
    and "fs ''years_experience_in_required_titles'' = Some r"
  shows "\<exists>s. compute_experience_score fs j = Inr s \<and> 0 \<le> s \<and> s \<le> 1"
  using assms by (simp add: compute_experience_score_def item_def Let_def)





lemma aggregated_score_shape:
  "\<exists>s_edu s_exp.
     compute_education_score (extract_all_features ext c j) = Inr s_edu \<and> 0 \<le> s_edu \<and> s_edu \<le> 1 \<and>
     compute_experience_score (extract_all_features ext c j) j = Inr s_exp \<and> 0 \<le> s_exp \<and> s_exp \<le> 1 \<and>
     compute_aggregated_score ext c j =
       Inr (w_edu (get_weight_config j) * s_edu + w_exp (get_weight_config j) * s_exp
              + w_lang (get_weight_config j) * compute_language_score (extract_all_features ext c j)
              + w_skill (get_weight_config j) * compute_skills_score (extract_all_features ext c j),
            \<lparr>S_edu = s_edu, S_exp = s_exp,
             S_lang = compute_language_score (extract_all_features ext c j),
             S_skill = compute_skills_score (extract_all_features ext c j),
             S_base = w_edu (get_weight_config j) * s_edu + w_exp (get_weight_config j) * s_exp
              + w_lang (get_weight_config j) * compute_language_score (extract_all_features ext c j)
              + w_skill (get_weight_config j) * compute_skills_score (extract_all_features ext c j),
             weights = get_weight_config j\<rparr>)"
proof -
  let ?fs = "extract_all_features ext c j"
  have "''has_required_degree_level'' \<in> dom ?fs"
    unfolding dom_extract_all_features dom_extractors by simp
  then obtain v where v: "?fs ''has_required_degree_level'' = Some v" by blast
  have "''total_years_experience'' \<in> dom ?fs"
    unfolding dom_extract_all_features dom_extractors by simp
  then obtain t where t: "?fs ''total_years_experience'' = Some t" by blast
  have "''years_experience_in_required_titles'' \<in> dom ?fs"
    unfolding dom_extract_all_features dom_extractors by simp
  then obtain r where r: "?fs ''years_experience_in_required_titles'' = Some r" by blast
  obtain s_edu where e: "compute_education_score ?fs = Inr s_edu" "0 \<le> s_edu" "s_edu \<le> 1"
    using education_score_range [of ?fs v, OF v] by blast
  obtain s_exp where x: "compute_experience_score ?fs j = Inr s_exp" "0 \<le> s_exp" "s_exp \<le> 1"
    using experience_score_range [of ?fs t r j, OF t r] by blast
  have "compute_aggregated_score ext c j =
       Inr (w_edu (get_weight_config j) * s_edu + w_exp (get_weight_config j) * s_exp
              + w_lang (get_weight_config j) * compute_language_score ?fs
              + w_skill (get_weight_config j) * compute_skills_score ?fs,
            \<lparr>S_edu = s_edu, S_exp = s_exp,
             S_lang = compute_language_score ?fs,
             S_skill = compute_skills_score ?fs,
             S_base = w_edu (get_weight_config j) * s_edu + w_exp (get_weight_config j) * s_exp
              + w_lang (get_weight_config j) * compute_language_score ?fs
              + w_skill (get_weight_config j) * compute_skills_score ?fs,
             weights = get_weight_config j\<rparr>)"
    unfolding compute_aggregated_score_def Let_def e(1) x(1) by simp
  with e x show ?thesis by blast
qed

subsection \<open>Mandatory languages\<close>

lemma all_features_language_ok:
  "extract_all_features ext c j ''all_mandatory_languages_ok''
     = Some (if filter (\<lambda>lang_req. critical_level_of lang_req > 0) (job_languages j) = []
             then 0 else 1)"
  by (simp add: all_features_language dom_extractors language_ok_value)

lemma all_features_language_ratio:
  "extract_all_features ext c j ''mandatory_language_coverage_ratio''
     = Some (if filter (\<lambda>lang_req. critical_level_of lang_req > 0) (job_languages j) = []
             then 0 else 1)"
  by (simp add: all_features_language dom_extractors language_ratio_value)

text \<open>
  Claim C1. A job without mandatory language requirements should get
  \<open>mandatory_language_coverage_ratio = 1\<close> and \<open>all_mandatory_languages_ok = 1\<close>. The code
  divides by 1 instead of 0 for the empty list and then compares 0 satisfied requirements
  with that 1: for the example job without language requirements and every candidate both
  features are 0, and the hard filter rejects the candidate for its languages.
\<close>

theorem no_language_requirements_not_ok:
  "extract_all_features ext c job_no_languages ''mandatory_language_coverage_ratio'' = Some 0
   \<and> extract_all_features ext c job_no_languages ''all_mandatory_languages_ok'' = Some 0
   \<and> should_filter_out (extract_all_features ext) c job_no_languages
       = (True, ''Mandatory languages not satisfied'')"
proof -
  have l: "job_languages job_no_languages = []"
    by (simp add: job_no_languages_def)
  have r: "extract_all_features ext c job_no_languages ''mandatory_language_coverage_ratio'' = Some 0"
    unfolding all_features_language_ratio l by simp
  have k: "extract_all_features ext c job_no_languages ''all_mandatory_languages_ok'' = Some 0"
    unfolding all_features_language_ok l by simp
  have m: "extract_all_features ext c job_no_languages ''mandatory_criteria_all_pass'' = Some 1"
    by (simp add: all_features_criteria dom_extractors criteria_all_pass)
  have "should_filter_out (extract_all_features ext) c job_no_languages
       = (True, ''Mandatory languages not satisfied'')"
    unfolding should_filter_out_def Let_def get_or_def k m by simp
  with r k show ?thesis by simp
qed

text \<open>
  Claim C2. The example job requires English at C1 (ordinal 5) as a mandatory language and
  the candidate claims English at B2 (ordinal 4): the check should fail. The code compares
  the candidate's level with \<open>level_to_ordinal\<close> of the decimal numeral of the criticality,
  which is 0, so \<open>all_mandatory_languages_ok\<close> is 1 and the language layer score is 0.7.
\<close>

theorem english_B2_against_C1_accepted:
  "level_to_ordinal ''B2'' = 4 \<and> level_to_ordinal ''C1'' = 5
   \<and> extract_all_features ext candidate_english_B2 example_job ''all_mandatory_languages_ok'' = Some 1
   \<and> (\<exists>b ls. compute_aggregated_score ext candidate_english_B2 example_job = Inr (b, ls)
              \<and> S_lang ls = 7 / 10)"
proof -
  let ?fs = "extract_all_features ext candidate_english_B2 example_job"
  have lv: "level_to_ordinal ''B2'' = 4 \<and> level_to_ordinal ''C1'' = 5"
    by (simp add: level_to_ordinal_def LEVEL_ORDINAL_def upper_def upper_char_def)
  have l: "job_languages example_job =
     [\<lparr>languages = Some (LangProficiency \<lparr>language = ''English'', level = ''C1''\<rparr>),
          Level_of_cretical = Some 5.0\<rparr>]"
    by (simp add: example_job_def)
  have k: "?fs ''all_mandatory_languages_ok'' = Some 1"
    unfolding all_features_language_ok l by (simp add: critical_level_of_def)
  have r: "?fs ''mandatory_language_coverage_ratio'' = Some 1"
    unfolding all_features_language_ratio l by (simp add: critical_level_of_def)
  have "extract_language_features ext candidate_english_B2 example_job
          ''preferred_language_coverage_ratio'' = Some 0"
    by (rule language_preferred_value_none) (simp add: l critical_level_of_def)
  then have p: "?fs ''preferred_language_coverage_ratio'' = Some 0"
    by (simp add: all_features_language dom_extractors)
  have s: "compute_language_score ?fs = 7 / 10"
    unfolding compute_language_score_def Let_def get_or_def k r p by simp
  obtain s_edu s_exp where
    "compute_aggregated_score ext candidate_english_B2 example_job =
       Inr (w_edu (get_weight_config example_job) * s_edu + w_exp (get_weight_config example_job) * s_exp
              + w_lang (get_weight_config example_job) * compute_language_score ?fs
              + w_skill (get_weight_config example_job) * compute_skills_score ?fs,
            \<lparr>S_edu = s_edu, S_exp = s_exp,
             S_lang = compute_language_score ?fs,
             S_skill = compute_skills_score ?fs,
             S_base = w_edu (get_weight_config example_job) * s_edu + w_exp (get_weight_config example_job) * s_exp
              + w_lang (get_weight_config example_job) * compute_language_score ?fs
              + w_skill (get_weight_config example_job) * compute_skills_score ?fs,
             weights = get_weight_config example_job\<rparr>)"
    using aggregated_score_shape [of ext candidate_english_B2 example_job] by blast
  then have "\<exists>b ls. compute_aggregated_score ext candidate_english_B2 example_job = Inr (b, ls)
              \<and> S_lang ls = 7 / 10"
    using s by simp
  with lv k show ?thesis by blast
qed

subsection \<open>Hard filter\<close>

text \<open>
  Claim C3. For every feature extractor the filter is built with and every candidate-job
  pair, \<open>should_filter_out\<close> checks in this order: the mandatory criteria, the mandatory
  languages, and, for a posting that is not online, the location; it answers with the reason
  of the first check that fails (a missing feature counts as 0, that is as a failure) and
  with "passed" when none fails. In particular a pair failing the first check gets the
  mandatory-criteria reason whatever the language check says.
\<close>

theorem should_filter_out_priority:
  "(extract c j ''mandatory_criteria_all_pass'' \<in> {None, Some 0} \<longrightarrow>
      should_filter_out extract c j = (True, ''Failed mandatory criteria''))
   \<and> (extract c j ''mandatory_criteria_all_pass'' \<notin> {None, Some 0}
      \<and> extract c j ''all_mandatory_languages_ok'' \<in> {None, Some 0} \<longrightarrow>
      should_filter_out extract c j = (True, ''Mandatory languages not satisfied''))
   \<and> (extract c j ''mandatory_criteria_all_pass'' \<notin> {None, Some 0}
      \<and> extract c j ''all_mandatory_languages_ok'' \<notin> {None, Some 0}
      \<and> lower (presence_type j) \<noteq> ''online''
      \<and> extract c j ''location_match'' \<in> {None, Some 0} \<longrightarrow>
      should_filter_out extract c j
        = (True, ''Location mismatch and candidate not willing to relocate''))
   \<and> (extract c j ''mandatory_criteria_all_pass'' \<notin> {None, Some 0}
      \<and> extract c j ''all_mandatory_languages_ok'' \<notin> {None, Some 0}
      \<and> (lower (presence_type j) = ''online''
          \<or> extract c j ''location_match'' \<notin> {None, Some 0}) \<longrightarrow>
      should_filter_out extract c j = (False, ''Passed all hard filters''))"
  unfolding should_filter_out_def Let_def get_or_def
  by (auto split: option.splits)

theorem should_filter_out_priority_witness:
  "should_filter_out
     (\<lambda>c j. [''mandatory_criteria_all_pass'' \<mapsto> 0, ''all_mandatory_languages_ok'' \<mapsto> 0])
     example_candidate example_job = (True, ''Failed mandatory criteria'')
   \<and> should_filter_out
     (\<lambda>c j. [''mandatory_criteria_all_pass'' \<mapsto> 1, ''all_mandatory_languages_ok'' \<mapsto> 0])
     example_candidate example_job = (True, ''Mandatory languages not satisfied'')
   \<and> should_filter_out
     (\<lambda>c j. [''mandatory_criteria_all_pass'' \<mapsto> 1, ''all_mandatory_languages_ok'' \<mapsto> 1,
              ''location_match'' \<mapsto> 0])
     example_candidate example_job
       = (True, ''Location mismatch and candidate not willing to relocate'')
   \<and> should_filter_out
     (\<lambda>c j. [''mandatory_criteria_all_pass'' \<mapsto> 1, ''all_mandatory_languages_ok'' \<mapsto> 1,
              ''location_match'' \<mapsto> 1])
     example_candidate example_job = (False, ''Passed all hard filters'')"
proof -
  have p: "lower (presence_type example_job) \<noteq> ''online''"
    by (simp add: example_job_def lower_def lower_char_def)
  show ?thesis
    using p
      should_filter_out_priority
        [of "\<lambda>c j. [''mandatory_criteria_all_pass'' \<mapsto> 0, ''all_mandatory_languages_ok'' \<mapsto> 0]"
            example_candidate example_job]
      should_filter_out_priority
        [of "\<lambda>c j. [''mandatory_criteria_all_pass'' \<mapsto> 1, ''all_mandatory_languages_ok'' \<mapsto> 0]"
            example_candidate example_job]
      should_filter_out_priority
        [of "\<lambda>c j. [''mandatory_criteria_all_pass'' \<mapsto> 1, ''all_mandatory_languages_ok'' \<mapsto> 1,
              ''location_match'' \<mapsto> 0]"
            example_candidate example_job]
      should_filter_out_priority
        [of "\<lambda>c j. [''mandatory_criteria_all_pass'' \<mapsto> 1, ''all_mandatory_languages_ok'' \<mapsto> 1,
              ''location_match'' \<mapsto> 1]"
            example_candidate example_job]
    by simp
qed

subsection \<open>Field match\<close>

lemma normalize_computer_science: "normalize_text ''Computer Science'' = ''computer science''"
  by code_simp

lemma normalize_machine_learning: "normalize_text ''Machine Learning'' = ''machine learning''"
  by code_simp

text \<open>
  Claim C6. The field match should be the Jaccard similarity between the normalized
  departments and specialities of the candidate and those the job requires. The code
  collects the candidate's specialities and never uses them: for the example candidate and
  the example job both sets are \<open>{computer science, machine learning}\<close>, yet the score is
  1/2, not 1.
\<close>

theorem field_match_ignores_speciality:
  "set (concat (map (\<lambda>edu. [normalize_text (department edu), normalize_text (speciality edu)])
                    (education example_candidate)))
     = {normalize_text (the (education_department example_job)),
        normalize_text (the (education_speciality example_job))}
   \<and> extract_all_features ext example_candidate example_job ''field_match_score'' = Some (1 / 2)"
proof -
  have e: "education example_candidate =
        [\<lparr>level_of_education = ''Master'', department = ''Computer Science'',
          speciality = ''Machine Learning'', university = ''MIT'', edu_country = ''USA'',
          edu_start_date = midnight 15584, edu_end_date = Some (midnight 16222)\<rparr>]"
    by (simp add: example_candidate_def)
  have d: "education_department example_job = Some ''Computer Science''"
    and s: "education_speciality example_job = Some ''Machine Learning''"
    by (simp_all add: example_job_def)
  have sets: "set (concat (map (\<lambda>edu. [normalize_text (department edu), normalize_text (speciality edu)])
                    (education example_candidate)))
     = {normalize_text (the (education_department example_job)),
        normalize_text (the (education_speciality example_job))}"
    unfolding e d s by simp
  have "extract_education_features example_candidate example_job ''field_match_score'' = Some (1 / 2)"
    unfolding extract_education_features_def Let_def e d s
    by (simp add: truthy_def normalize_computer_science normalize_machine_learning)
  then have "extract_all_features ext example_candidate example_job ''field_match_score'' = Some (1 / 2)"
    by (simp add: all_features_education dom_extractors)
  with sets show ?thesis by simp
qed

subsection \<open>Skills\<close>

lemma map_skill_Python: "map_skill ''Python'' = ''SK001''"
  by code_simp

lemma map_skill_Java: "map_skill ''Java'' = ''SK002''"
  by code_simp

lemma skills_features_values:
  "extract_skills_features ext c j ''skill_overlap_ratio''
     = Some (let C = set (map (\<lambda>s. map_skill (skill_name s)) (cand_skills c));
                 J = set (map (\<lambda>s. map_skill (skill_name s)) (job_skills j))
             in if J = {} then 0 else real (card (C \<inter> J)) / real (card J))"
  "extract_skills_features ext c j ''mandatory_skill_coverage_ratio''
     = extract_skills_features ext c j ''skill_overlap_ratio''"
  "extract_skills_features ext c j ''weighted_skill_match_score''
     = Some (let C = set (map (\<lambda>s. map_skill (skill_name s)) (cand_skills c));
                 total = (\<Sum>s \<leftarrow> job_skills j. importance_or_1 s);
                 matched = (\<Sum>s \<leftarrow> filter (\<lambda>s. map_skill (skill_name s) \<in> C) (job_skills j).
                              importance_or_1 s)
             in if total > 0 then matched / total else 0)"
  unfolding extract_skills_features_def Let_def by simp_all

lemma skills_score_of_features:
  assumes "fs ''skill_overlap_ratio'' = Some ov"
    and "fs ''mandatory_skill_coverage_ratio'' = Some ov"
    and "fs ''weighted_skill_match_score'' = Some wm"
  shows "compute_skills_score fs = (if ov < 1 / 2 then 0 else min (max (0.6 * ov + 0.4 * wm) 0) 1)"
  unfolding compute_skills_score_def Let_def get_or_def assms by simp

lemma map_skill_Machine_Learning: "map_skill ''Machine Learning'' = ''SK005''"
  by code_simp

lemma map_skill_Deep_Learning: "map_skill ''Deep Learning'' = ''SK006''"
  by code_simp

lemmas map_skill_examples =
  map_skill_Python map_skill_Java map_skill_Machine_Learning map_skill_Deep_Learning

lemma S_skill_of_aggregated:
  "map_sum id (S_skill \<circ> snd) (compute_aggregated_score ext c j)
     = Inr (compute_skills_score (extract_all_features ext c j))"
  using aggregated_score_shape [of ext c j] by force

text \<open>
  Claim C7, as amended. For every candidate-job pair the skill layer score is 0 whenever
  \<open>mandatory_skill_coverage_ratio\<close> is below 0.5, and that feature is the unweighted
  \<open>skill_overlap_ratio\<close> (the share of the job's distinct skill identifiers the candidate
  has), not the weighted coverage; otherwise the score is
  \<open>0.6 * skill_overlap_ratio + 0.4 * weighted_skill_match_score\<close> clamped to \<open>[0, 1]\<close>.
\<close>

theorem skills_gate:
  "\<exists>ov wm b ls.
      ov = (let C = set (map (\<lambda>s. map_skill (skill_name s)) (cand_skills c));
                J = set (map (\<lambda>s. map_skill (skill_name s)) (job_skills j))
            in if J = {} then 0 else real (card (C \<inter> J)) / real (card J))
    \<and> wm = (let C = set (map (\<lambda>s. map_skill (skill_name s)) (cand_skills c));
                 total = (\<Sum>s \<leftarrow> job_skills j. importance_or_1 s);
                 matched = (\<Sum>s \<leftarrow> filter (\<lambda>s. map_skill (skill_name s) \<in> C) (job_skills j).
                              importance_or_1 s)
             in if total > 0 then matched / total else 0)
    \<and> extract_all_features ext c j ''skill_overlap_ratio'' = Some ov
    \<and> extract_all_features ext c j ''mandatory_skill_coverage_ratio'' = Some ov
    \<and> extract_all_features ext c j ''weighted_skill_match_score'' = Some wm
    \<and> compute_aggregated_score ext c j = Inr (b, ls)
    \<and> S_skill ls = (if ov < 1 / 2 then 0 else min (max (0.6 * ov + 0.4 * wm) 0) 1)"
proof -
  let ?fs = "extract_all_features ext c j"
  define ov where "ov = (let C = set (map (\<lambda>s. map_skill (skill_name s)) (cand_skills c));
                J = set (map (\<lambda>s. map_skill (skill_name s)) (job_skills j))
            in if J = {} then 0 else real (card (C \<inter> J)) / real (card J))"
  define wm where "wm = (let C = set (map (\<lambda>s. map_skill (skill_name s)) (cand_skills c));
                 total = (\<Sum>s \<leftarrow> job_skills j. importance_or_1 s);
                 matched = (\<Sum>s \<leftarrow> filter (\<lambda>s. map_skill (skill_name s) \<in> C) (job_skills j).
                              importance_or_1 s)
             in if total > 0 then matched / total else 0)"
  have a: "?fs ''skill_overlap_ratio'' = Some ov"
    unfolding ov_def by (simp add: all_features_skills dom_extractors skills_features_values)
  have b: "?fs ''mandatory_skill_coverage_ratio'' = Some ov"
    unfolding ov_def by (simp add: all_features_skills dom_extractors skills_features_values)
  have w: "?fs ''weighted_skill_match_score'' = Some wm"
    unfolding wm_def by (simp add: all_features_skills dom_extractors skills_features_values)
  have s: "compute_skills_score ?fs = (if ov < 1 / 2 then 0 else min (max (0.6 * ov + 0.4 * wm) 0) 1)"
    by (rule skills_score_of_features [OF a b w])
  obtain bs ls where r: "compute_aggregated_score ext c j = Inr (bs, ls)"
    and l: "S_skill ls = compute_skills_score ?fs"
    using aggregated_score_shape [of ext c j] by force
  show ?thesis
    using a b w r l s ov_def wm_def by metis
qed

theorem skills_gate_counterexample:
  "extract_all_features opposing_extern candidate_java_only job_two_skills
       ''weighted_skill_match_score'' = Some (1 / 6)
   \<and> (1 / 6 :: real) < 0.5
   \<and> map_sum id (S_skill \<circ> snd)
        (compute_aggregated_score opposing_extern candidate_java_only job_two_skills)
       = Inr (11 / 30)
   \<and> (11 / 30 :: real) \<noteq> 0"
proof -
  let ?fs = "extract_all_features opposing_extern candidate_java_only job_two_skills"
  have cs: "cand_skills candidate_java_only =
       [\<lparr>skill_id = ''SK002'', skill_name = ''Java'', importance = Some 0.8\<rparr>]"
    by (simp add: candidate_java_only_def)
  have js: "job_skills job_two_skills =
       [\<lparr>skill_id = ''SK001'', skill_name = ''Python'', importance = Some 1.0\<rparr>,
        \<lparr>skill_id = ''SK002'', skill_name = ''Java'', importance = Some 0.2\<rparr>]"
    by (simp add: job_two_skills_def)
  have a: "?fs ''skill_overlap_ratio'' = Some (1 / 2)"
    by (simp add: all_features_skills dom_extractors skills_features_values cs js
        map_skill_examples)
  have b: "?fs ''mandatory_skill_coverage_ratio'' = Some (1 / 2)"
    by (simp add: all_features_skills dom_extractors skills_features_values cs js
        map_skill_examples)
  have w: "?fs ''weighted_skill_match_score'' = Some (1 / 6)"
    by (simp add: all_features_skills dom_extractors skills_features_values cs js
        map_skill_examples importance_or_1_def)
  have "compute_skills_score ?fs = 11 / 30"
    unfolding skills_score_of_features [OF a b w] by simp
  then show ?thesis
    using w by (simp add: S_skill_of_aggregated)
qed

theorem skills_gate_witness:
  "\<exists>b ls. compute_aggregated_score opposing_extern example_candidate example_job = Inr (b, ls)
          \<and> S_skill ls = 1"
proof -
  have cs: "map (\<lambda>s. map_skill (skill_name s)) (cand_skills example_candidate)
              = [''SK001'', ''SK002'', ''SK005'', ''SK006'']"
    by (simp add: example_candidate_def map_skill_examples)
  have js: "job_skills example_job =
        [\<lparr>skill_id = ''SK001'', skill_name = ''Python'', importance = Some 1.0\<rparr>,
         \<lparr>skill_id = ''SK005'', skill_name = ''Machine Learning'', importance = Some 1.0\<rparr>,
         \<lparr>skill_id = ''SK006'', skill_name = ''Deep Learning'', importance = Some 0.9\<rparr>]"
    by (simp add: example_job_def)
  show ?thesis
    using skills_gate [of example_candidate example_job opposing_extern]
    unfolding cs js Let_def
    by (simp add: map_skill_examples importance_or_1_def)
qed

subsection \<open>Ranges of the features and scores\<close>




























subsection \<open>Ranking\<close>

lemma sort_by_score_desc_props:
  "mset (sort_by_score_desc rs) = mset rs"
  "sorted_wrt (\<lambda>a b. fst (snd a) \<ge> fst (snd b)) (sort_by_score_desc rs)"
  "filter (\<lambda>x. fst (snd x) = s) (sort_by_score_desc rs) = filter (\<lambda>x. fst (snd x) = s) rs"
proof -
  show "mset (sort_by_score_desc rs) = mset rs"
    by (simp add: sort_by_score_desc_def)
  have "sorted (map (\<lambda>x. - fst (snd x)) (sort_by_score_desc rs))"
    unfolding sort_by_score_desc_def by (rule sorted_sort_key)
  then show "sorted_wrt (\<lambda>a b. fst (snd a) \<ge> fst (snd b)) (sort_by_score_desc rs)"
    by (simp add: sorted_map)
  have "filter (\<lambda>x. - fst (snd x) = - s) (sort_by_score_desc rs)
          = filter (\<lambda>x. - fst (snd x) = - s) rs"
    unfolding sort_by_score_desc_def by (rule sort_key_stable)
  then show "filter (\<lambda>x. fst (snd x) = s) (sort_by_score_desc rs) = filter (\<lambda>x. fst (snd x) = s) rs"
    by simp
qed

lemma example_ranking:
  "recommend_candidates_for_job example_system example_job
       [candidate_A, candidate_B, candidate_C] 2 True
     = [(candidate_B, 9 / 10, ()), (candidate_C, 1 / 2, ())]"
  by (simp add: recommend_candidates_for_job_def example_system_def Let_def slice_to_def
      sort_by_score_desc_def repr_product_sum_def candidate_A_def candidate_B_def candidate_C_def)

text \<open>
  Claim C4, as amended. For every job, candidate pool and \<open>top_k\<close>,
  \<open>recommend_candidates_for_job\<close> cuts a list that holds exactly the surviving candidates
  with their scores from the learned model, is sorted by score in descending order, and
  keeps candidates of equal score in pool order: for \<open>top_k \<ge> 0\<close> it returns the first
  \<open>top_k\<close> entries, for a negative \<open>top_k\<close> all but the last \<open>- top_k\<close> entries. It returns
  the empty list when no candidate survives. For the pool A, B, C with scores 0.2, 0.9, 0.5
  and \<open>top_k = 2\<close> the result is B, C.
\<close>

theorem recommend_candidates_ranking:
  "(let survivors =
            (if apply_hard_filter
             then filter (\<lambda>candidate. \<not> fst (hard_filter rs candidate job)) candidate_pool
             else candidate_pool);
          job_repr = encode_job (model rs) (prepare_features (model rs) (hd survivors) job);
          score = (\<lambda>candidate.
                     repr_product_sum
                       (encode_candidate (model rs) (prepare_features (model rs) candidate job))
                       job_repr);
          scored = map (\<lambda>candidate.
                          (candidate, score candidate,
                           generate_explanation rs candidate job (score candidate)))
                       survivors;
          result = recommend_candidates_for_job rs job candidate_pool top_k apply_hard_filter
      in (survivors = [] \<longrightarrow> result = [])
         \<and> (\<exists>ranked.
               mset ranked = mset scored
             \<and> sorted_wrt (\<lambda>a b. fst (snd a) \<ge> fst (snd b)) ranked
             \<and> (\<forall>s. filter (\<lambda>x. fst (snd x) = s) ranked = filter (\<lambda>x. fst (snd x) = s) scored)
             \<and> result = (if 0 \<le> top_k then take (nat top_k) ranked
                         else take (length ranked - nat (- top_k)) ranked)))
    \<and> recommend_candidates_for_job example_system example_job
         [candidate_A, candidate_B, candidate_C] 2 True
       = [(candidate_B, 9 / 10, ()), (candidate_C, 1 / 2, ())]"
proof -
  define survivors where "survivors =
            (if apply_hard_filter
             then filter (\<lambda>candidate. \<not> fst (hard_filter rs candidate job)) candidate_pool
             else candidate_pool)"
  define score where "score = (\<lambda>candidate.
                     repr_product_sum
                       (encode_candidate (model rs) (prepare_features (model rs) candidate job))
                       (encode_job (model rs) (prepare_features (model rs) (hd survivors) job)))"
  define scored where "scored = map (\<lambda>candidate.
                          (candidate, score candidate,
                           generate_explanation rs candidate job (score candidate)))
                       survivors"
  have res: "recommend_candidates_for_job rs job candidate_pool top_k apply_hard_filter
          = (if survivors = [] then [] else slice_to (sort_by_score_desc scored) top_k)"
    unfolding recommend_candidates_for_job_def Let_def survivors_def [symmetric]
      scored_def score_def
    by simp
  have empty: "survivors = [] \<Longrightarrow> scored = []" by (simp add: scored_def)
  have res': "recommend_candidates_for_job rs job candidate_pool top_k apply_hard_filter
          = (if 0 \<le> top_k then take (nat top_k) (sort_by_score_desc scored)
             else take (length (sort_by_score_desc scored) - nat (- top_k))
                       (sort_by_score_desc scored))"
    using res empty
    by (cases "survivors = []") (simp_all add: sort_by_score_desc_def slice_to_def)
  have ex: "\<exists>ranked.
               mset ranked = mset scored
             \<and> sorted_wrt (\<lambda>a b. fst (snd a) \<ge> fst (snd b)) ranked
             \<and> (\<forall>s. filter (\<lambda>x. fst (snd x) = s) ranked = filter (\<lambda>x. fst (snd x) = s) scored)
             \<and> recommend_candidates_for_job rs job candidate_pool top_k apply_hard_filter
                 = (if 0 \<le> top_k then take (nat top_k) ranked
                    else take (length ranked - nat (- top_k)) ranked)"
    using sort_by_score_desc_props [where rs = scored] res' by blast
  have e0: "survivors = [] \<longrightarrow>
      recommend_candidates_for_job rs job candidate_pool top_k apply_hard_filter = []"
    using res by simp
  show ?thesis
    unfolding Let_def
    using e0 ex example_ranking
    unfolding survivors_def scored_def score_def by blast
qed

theorem recommend_candidates_ranking_witness:
  "recommend_candidates_for_job example_system example_job [] 2 True = []
   \<and> (\<exists>ranked.
         mset ranked
           = mset [(candidate_A, 1 / 5, ()), (candidate_B, 9 / 10, ()), (candidate_C, 1 / 2, ())]
       \<and> sorted_wrt (\<lambda>a b. fst (snd a) \<ge> fst (snd b)) ranked
       \<and> recommend_candidates_for_job example_system example_job
            [candidate_A, candidate_B, candidate_C] 2 True = take 2 ranked)
   \<and> (\<exists>ranked.
         mset ranked
           = mset [(candidate_A, 1 / 5, ()), (candidate_B, 9 / 10, ()), (candidate_C, 1 / 2, ())]
       \<and> sorted_wrt (\<lambda>a b. fst (snd a) \<ge> fst (snd b)) ranked
       \<and> recommend_candidates_for_job example_system example_job
            [candidate_A, candidate_B, candidate_C] (- 1) True = take (length ranked - 1) ranked)"
proof -
  have a: "recommend_candidates_for_job example_system example_job [] 2 True = []"
    using recommend_candidates_ranking [of True example_system example_job "[]" 2]
    by (simp add: Let_def)
  have sc: "map (\<lambda>candidate.
                    (candidate,
                     repr_product_sum
                       (encode_candidate (model example_system)
                          (prepare_features (model example_system) candidate example_job))
                       (encode_job (model example_system)
                          (prepare_features (model example_system)
                             (hd [candidate_A, candidate_B, candidate_C]) example_job)),
                     generate_explanation example_system candidate example_job
                       (repr_product_sum
                          (encode_candidate (model example_system)
                             (prepare_features (model example_system) candidate example_job))
                          (encode_job (model example_system)
                             (prepare_features (model example_system)
                                (hd [candidate_A, candidate_B, candidate_C]) example_job)))))
                 [candidate_A, candidate_B, candidate_C]
          = [(candidate_A, 1 / 5, ()), (candidate_B, 9 / 10, ()), (candidate_C, 1 / 2, ())]"
    by (simp add: example_system_def repr_product_sum_def candidate_A_def candidate_B_def
        candidate_C_def)
  have f: "filter (\<lambda>candidate. \<not> fst (hard_filter example_system candidate example_job))
              [candidate_A, candidate_B, candidate_C] = [candidate_A, candidate_B, candidate_C]"
    by (simp add: example_system_def)
  have b: "\<exists>ranked.
         mset ranked
           = mset [(candidate_A, 1 / 5, ()), (candidate_B, 9 / 10, ()), (candidate_C, 1 / 2, ())]
       \<and> sorted_wrt (\<lambda>a b. fst (snd a) \<ge> fst (snd b)) ranked
       \<and> recommend_candidates_for_job example_system example_job
            [candidate_A, candidate_B, candidate_C] 2 True = take 2 ranked"
    using recommend_candidates_ranking
      [of True example_system example_job "[candidate_A, candidate_B, candidate_C]" 2]
    unfolding Let_def if_True f sc by auto
  have c: "\<exists>ranked.
         mset ranked
           = mset [(candidate_A, 1 / 5, ()), (candidate_B, 9 / 10, ()), (candidate_C, 1 / 2, ())]
       \<and> sorted_wrt (\<lambda>a b. fst (snd a) \<ge> fst (snd b)) ranked
       \<and> recommend_candidates_for_job example_system example_job
            [candidate_A, candidate_B, candidate_C] (- 1) True = take (length ranked - 1) ranked"
    using recommend_candidates_ranking
      [of True example_system example_job "[candidate_A, candidate_B, candidate_C]" "- 1"]
    unfolding Let_def if_True f sc by auto
  from a b c show ?thesis by blast
qed

theorem negative_top_k_counterexample:
  "recommend_candidates_for_job example_system example_job
       [candidate_A, candidate_B, candidate_C] (- 1) True
     = [(candidate_B, 9 / 10, ()), (candidate_C, 1 / 2, ())]
   \<and> recommend_candidates_for_job example_system example_job
       [candidate_A, candidate_B, candidate_C] (- 1) True
     \<noteq> take (nat (- 1))
         [(candidate_B, 9 / 10, ()), (candidate_C, 1 / 2, ()), (candidate_A, 1 / 5, ())]"
  by (simp add: recommend_candidates_for_job_def example_system_def Let_def slice_to_def
      sort_by_score_desc_def repr_product_sum_def candidate_A_def candidate_B_def candidate_C_def)

subsection \<open>NDCG\<close>

lemma valid_stable_argsort: "valid_argsort xs (stable_argsort xs)"
  unfolding valid_argsort_def stable_argsort_def
  by simp

lemma valid_argsort_indices:
  assumes "valid_argsort xs order"
  shows "set order = {0..<length xs}"
proof -
  have "set order = set [0..<length xs]"
    using assms unfolding valid_argsort_def by (metis mset_eq_setD)
  then show ?thesis by simp
qed

lemma valid_argsort_mset:
  assumes "valid_argsort xs order" and "length ts = length xs"
  shows "mset (map (\<lambda>i. ts ! i) order) = mset ts"
proof -
  have "mset (map (\<lambda>i. ts ! i) order) = image_mset (\<lambda>i. ts ! i) (mset order)"
    by simp
  also have "\<dots> = image_mset (\<lambda>i. ts ! i) (mset [0..<length ts])"
    using assms unfolding valid_argsort_def by simp
  also have "\<dots> = mset (map (\<lambda>i. ts ! i) [0..<length ts])"
    by simp
  also have "\<dots> = mset ts"
    by (simp add: map_nth)
  finally show ?thesis .
qed

lemma respect_relevanceD:
  assumes "scores_respect_relevance ts ps" and "i < length ts" and "j < length ts"
    and "ts ! i < ts ! j"
  shows "ps ! i < ps ! j"
  using assms unfolding scores_respect_relevance_def list_all_iff by force

lemma relevances_along_order_sorted:
  assumes v: "valid_argsort ps order" and len: "length ps = length ts"
    and r: "scores_respect_relevance ts ps"
  shows "sorted (map (\<lambda>i. ts ! i) order)"
proof -
  have s: "sorted (map (\<lambda>i. ps ! i) order)"
    using v unfolding valid_argsort_def by simp
  have idx: "\<And>a. a < length order \<Longrightarrow> order ! a < length ts"
    using valid_argsort_indices [OF v] len nth_mem by fastforce
  show ?thesis
    unfolding sorted_iff_nth_mono
  proof (intro allI impI)
    fix a b
    assume ab: "a \<le> b" and b: "b < length (map (\<lambda>i. ts ! i) order)"
    then have bl: "b < length order" and al: "a < length order" by simp_all
    have p: "ps ! (order ! a) \<le> ps ! (order ! b)"
      using s ab bl al unfolding sorted_iff_nth_mono by (metis length_map nth_map)
    have "ts ! (order ! a) \<le> ts ! (order ! b)"
    proof (rule ccontr)
      assume "\<not> ts ! (order ! a) \<le> ts ! (order ! b)"
      then have "ts ! (order ! b) < ts ! (order ! a)" by simp
      then have "ps ! (order ! b) < ps ! (order ! a)"
        using respect_relevanceD [OF r idx [OF bl] idx [OF al]] by simp
      with p show False by simp
    qed
    then show "map (\<lambda>i. ts ! i) order ! a \<le> map (\<lambda>i. ts ! i) order ! b"
      using al bl by simp
  qed
qed

lemma relevances_by_prediction:
  assumes "valid_argsort ps order" and "length ps = length ts"
    and "scores_respect_relevance ts ps"
  shows "map (\<lambda>i. ts ! i) (rev order) = rev (sort ts)"
proof -
  have m: "mset (map (\<lambda>i. ts ! i) order) = mset ts"
    using valid_argsort_mset [OF assms(1), of ts] assms(2) by simp
  have "sort ts = map (\<lambda>i. ts ! i) order"
    using m relevances_along_order_sorted [OF assms]
    by (intro properties_for_sort)
  then show ?thesis by (simp add: rev_map)
qed

lemma relevances_ideal:
  assumes "valid_argsort ts order"
  shows "map (\<lambda>i. ts ! i) (rev order) = rev (sort ts)"
proof -
  have "sorted (map (\<lambda>i. ts ! i) order)"
    using assms unfolding valid_argsort_def by simp
  moreover have "mset (map (\<lambda>i. ts ! i) order) = mset ts"
    using valid_argsort_mset [OF assms, of ts] by simp
  ultimately have "sort ts = map (\<lambda>i. ts ! i) order"
    by (intro properties_for_sort)
  then show ?thesis by (simp add: rev_map)
qed

lemma no_index_error:
  assumes "valid_argsort ps order" and "length ps = length ts"
  shows "\<not> list_ex (\<lambda>i. i \<ge> length ts) (rev order)"
  using valid_argsort_indices [OF assms(1)] assms(2) by (auto simp: list_ex_iff)

text \<open>
  Claim C9, as amended. For the empty relevance list \<open>ndcg_at_k\<close> returns 0. For a
  non-empty relevance list with as many predicted scores, where of two items the one of
  strictly higher relevance has the strictly higher score, and whatever order
  \<^verbatim>\<open>np.argsort\<close> gives to equal values, it returns 1 when the DCG at \<open>k\<close> of the relevances
  in descending order is not zero, and 0 when it is zero.
\<close>

theorem ndcg_at_k_perfect_order:
  "ndcg_at_k argsort [] predicted_scores k = Inr 0
   \<and> (true_relevances \<noteq> []
       \<and> length predicted_scores = length true_relevances
       \<and> valid_argsort predicted_scores (argsort predicted_scores)
       \<and> valid_argsort true_relevances (argsort true_relevances)
       \<and> scores_respect_relevance true_relevances predicted_scores
       \<longrightarrow> ndcg_at_k argsort true_relevances predicted_scores k
            = Inr (if dcg_at_k (rev (sort true_relevances)) k = 0 then 0 else 1))"
proof -
  have a: "ndcg_at_k argsort [] predicted_scores k = Inr 0"
    by (simp add: ndcg_at_k_def)
  have b: "ndcg_at_k argsort true_relevances predicted_scores k
            = Inr (if dcg_at_k (rev (sort true_relevances)) k = 0 then 0 else 1)"
    if ne: "true_relevances \<noteq> []"
      and len: "length predicted_scores = length true_relevances"
      and vp: "valid_argsort predicted_scores (argsort predicted_scores)"
      and vt: "valid_argsort true_relevances (argsort true_relevances)"
      and r: "scores_respect_relevance true_relevances predicted_scores"
  proof -
    have ok: "\<not> list_ex (\<lambda>i. i \<ge> length true_relevances) (rev (argsort predicted_scores))"
      by (rule no_index_error [OF vp len])
    have p: "map (\<lambda>i. true_relevances ! i) (rev (argsort predicted_scores))
               = rev (sort true_relevances)"
      by (rule relevances_by_prediction [OF vp len r])
    have i: "map (\<lambda>i. true_relevances ! i) (rev (argsort true_relevances))
               = rev (sort true_relevances)"
      by (rule relevances_ideal [OF vt])
    show ?thesis
      unfolding ndcg_at_k_def Let_def p i using ne ok by simp
  qed
  from a b show ?thesis by blast
qed

lemma stable_argsort_single: "stable_argsort [x] = [0]"
  by (simp add: stable_argsort_def)

theorem ndcg_all_zero_counterexample:
  "[0 :: real] \<noteq> []
   \<and> length [1 :: real] = length [0 :: real]
   \<and> scores_respect_relevance [0] [1]
   \<and> ndcg_at_k stable_argsort [0] [1] 5 = Inr 0"
  by (simp add: ndcg_at_k_def dcg_at_k_def slice_to_def stable_argsort_single Let_def
      scores_respect_relevance_def)

lemma dcg_example: "dcg_at_k (rev (sort [1, 0, 1])) 5 = 1 + 1 / log 2 3"
  by (simp add: dcg_at_k_def slice_to_def upt_rec)

lemma log_2_3_pos: "0 < log 2 (3 :: real)"
  by simp

theorem ndcg_at_k_perfect_order_witness:
  "[1, 0, 1 :: real] \<noteq> []
   \<and> length [7 / 10, 1 / 10, 7 / 10 :: real] = length [1, 0, 1 :: real]
   \<and> valid_argsort [7 / 10, 1 / 10, 7 / 10] (stable_argsort [7 / 10, 1 / 10, 7 / 10])
   \<and> valid_argsort [1, 0, 1] (stable_argsort [1, 0, 1])
   \<and> scores_respect_relevance [1, 0, 1] [7 / 10, 1 / 10, 7 / 10]
   \<and> ndcg_at_k stable_argsort [1, 0, 1] [7 / 10, 1 / 10, 7 / 10] 5 = Inr 1"
proof -
  have r: "scores_respect_relevance [1, 0, 1] [7 / 10, 1 / 10, 7 / 10]"
    by (simp add: scores_respect_relevance_def upt_rec)
  have "0 < 1 / log 2 (3 :: real)"
    using log_2_3_pos by simp
  then have d: "dcg_at_k (rev (sort [1, 0, 1])) 5 \<noteq> 0"
    unfolding dcg_example by linarith
  show ?thesis
    using r d valid_stable_argsort
      ndcg_at_k_perfect_order [of stable_argsort "[7 / 10, 1 / 10, 7 / 10]" 5 "[1, 0, 1]"]
    by simp
qed

end
